theory Spec2Isabelle
  imports Main
begin

section \<open>Go errors\<close>

text \<open>
  A Go \<open>error\<close> value is modelled by how it was built: \<open>errors.New\<close> with its
  message, \<open>fmt.Errorf\<close> with its format string and arguments, or a wrap of
  another error with a context message, itself a format string and arguments
  (\<open>github.com/pkg/errors\<close>). A nil error is \<open>None\<close> of \<open>error option\<close>.
  Format arguments are kept as they are passed, a string or a duration in nanoseconds, and
  are not rendered into the message.
\<close>

datatype fmt_arg = ArgString string | ArgDuration nat

datatype error =
    ErrNew string
  | Errorf string "fmt_arg list"
  | ErrWrap error string "fmt_arg list"

text \<open>
  \<open>errors.Wrap(err, msg)\<close> and \<open>errors.Wrapf(err, format, args...)\<close> of
  \<open>github.com/pkg/errors\<close>: both return nil when \<open>err\<close> is nil, and otherwise an
  error that annotates \<open>err\<close> with the message.
\<close>

fun Wrapf :: "error option \<Rightarrow> string \<Rightarrow> fmt_arg list \<Rightarrow> error option" where
  "Wrapf None format args = None"
| "Wrapf (Some e) format args = Some (ErrWrap e format args)"

definition Wrap :: "error option \<Rightarrow> string \<Rightarrow> error option" where
  "Wrap err msg = Wrapf err msg []"

section \<open>Configuration\<close>

text \<open>The fields of \<open>config.ClusterConfig\<close> and \<open>config.Node\<close> that the modelled code reads.\<close>

record ClusterConfig =
  Name :: string
  Driver :: string
  KicBaseImage :: string
  DockerEnv :: "string list"
  InsecureRegistry :: "string list"
  RegistryMirror :: "string list"
  DockerOpt :: "string list"

record Node =
  NodeName :: string
  ControlPlane :: bool

section \<open>Engine options\<close>

record engine_Options =
  Env :: "string list"
  EngineInsecureRegistry :: "string list"
  EngineRegistryMirror :: "string list"
  ArbitraryFlags :: "string list"
  InstallURL :: string

text \<open>Reading a Go \<open>map[string]bool\<close>: a missing key reads as \<open>false\<close>.\<close>

definition seen_get :: "(string \<rightharpoonup> bool) \<Rightarrow> string \<Rightarrow> bool" where
  "seen_get seen k = (case seen k of None \<Rightarrow> False | Some b \<Rightarrow> b)"

text \<open>
  The loop of \<open>engineOptions\<close> that removes duplicates: it walks \<open>dockerEnv\<close> from the
  front with the map \<open>seen\<close> and the slice \<open>uniqueEnvs\<close>, appending an entry the first
  time it is met.
\<close>

fun dedup_loop :: "string list \<Rightarrow> (string \<rightharpoonup> bool) \<Rightarrow> string list \<Rightarrow> string list" where
  "dedup_loop [] seen uniqueEnvs = uniqueEnvs"
| "dedup_loop (e # es) seen uniqueEnvs =
     (if \<not> seen_get seen e
      then dedup_loop es (seen(e \<mapsto> True)) (uniqueEnvs @ [e])
      else dedup_loop es seen uniqueEnvs)"

definition dedup :: "string list \<Rightarrow> string list" where
  "dedup dockerEnv = dedup_loop dockerEnv Map.empty []"

section \<open>The machines lock\<close>

text \<open>A \<open>time.Duration\<close> is a number of nanoseconds.\<close>

definition Second :: nat where
  "Second = 1000000000"

definition Minute :: nat where
  "Minute = 60 * Second"

text \<open>\<open>mutex.Spec\<close> of \<open>github.com/juju/mutex\<close>: the name that keys the lock, and the timeout.\<close>

record mutex_Spec =
  SpecName :: string
  Timeout :: nat

section \<open>Hosts, calls to the outside, and traces\<close>

record Host =
  HostName :: string
  DriverName :: string
  CertDir :: string
  StorePath :: string
  EngineOptions :: "engine_Options option"

text \<open>
  \<open>api.Create(h)\<close> runs in a goroutine of its own. It either returns, at some instant
  after \<open>timedCreateHost\<close> was entered, with its error or nil, or it never returns.
\<close>

datatype create_behaviour =
    CreateReturns nat "error option"
  | CreateNeverReturns

text \<open>
  When both channels of the \<open>select\<close> in \<open>timedCreateHost\<close> are ready the Go runtime
  picks one case; which one is part of the world.
\<close>

datatype select_pick = PickCreateFinished | PickTimeout

text \<open>
  Everything \<open>StartHost\<close> reads from outside its own package: helper functions of
  packages that are not among the sources (\<open>driver.MachineName\<close>, \<open>localpath.MiniPath\<close>,
  \<open>lock.PathMutexSpec\<close>, \<open>proxy.SetDockerEnv\<close>, the \<open>driver.Is...\<close> predicates), the
  library function \<open>filepath.Join\<close>, which joins its elements and cleans the result, the
  constants \<open>constants.DefaultServiceCIDR\<close> and \<open>drivers.DefaultEngineInstallURL\<close>, and
  the outcome of every call to the lock, the libmachine API, the driver registry and the
  command runner. The model is a function of this record, so a theorem for every
  \<open>world\<close> holds whatever these calls do.
\<close>

record world =
  MachineName :: "ClusterConfig \<Rightarrow> Node \<Rightarrow> string"
  MiniPath :: string
  PathMutexSpec :: "string \<Rightarrow> mutex_Spec"
  filepath_Join :: "string list \<Rightarrow> string"
  SetDockerEnv :: "string list"
  DefaultServiceCIDR :: string
  DefaultEngineInstallURL :: string
  mutex_Acquire :: "mutex_Spec \<Rightarrow> error option"
  api_Exists :: "string \<Rightarrow> error + bool"
  registry_Driver_Empty :: "string \<Rightarrow> bool"
  def_Config :: "error option"
  json_Marshal :: "error option"
  api_NewHost :: "string \<Rightarrow> error + Host"
  api_Create :: create_behaviour
  select_tie :: select_pick
  IsMock :: "string \<Rightarrow> bool"
  BareMetal :: "string \<Rightarrow> bool"
  IsVM :: "string \<Rightarrow> bool"
  IsKIC :: "string \<Rightarrow> bool"
  CommandRunner :: "error option"
  RunCmd_mkdir :: "error option"
  syncLocalAssets :: "error option"
  saveHost :: "error option"
  fixHost :: "Host option \<times> error option"

text \<open>
  \<open>engineOptions\<close>: the docker environment is what \<open>proxy.SetDockerEnv()\<close> returns
  (it reads the process environment) with the configuration's \<open>DockerEnv\<close> appended,
  and then deduplicated.
\<close>

definition engineOptions :: "world \<Rightarrow> ClusterConfig \<Rightarrow> engine_Options" where
  "engineOptions w cfg =
     (let dockerEnv = SetDockerEnv w @ DockerEnv cfg;
          uniqueEnvs = dedup dockerEnv
      in \<lparr> Env = uniqueEnvs,
           EngineInsecureRegistry = [DefaultServiceCIDR w] @ InsecureRegistry cfg,
           EngineRegistryMirror = RegistryMirror cfg,
           ArbitraryFlags = DockerOpt cfg,
           InstallURL = DefaultEngineInstallURL w \<rparr>)"

text \<open>
  The calls a run makes, in order. \<open>EnterCreateHost\<close> and \<open>EnterFixHost\<close> mark the
  calls of \<open>createHost\<close> and \<open>fixHost\<close>.
\<close>

datatype event =
    Acquire mutex_Spec
  | Release
  | Exists string
  | EnterCreateHost
  | EnterFixHost
  | NewHost string
  | ApiCreate
  | Mkdir
  | ShowLocalOsRelease
  | LogRemoteOsRelease
  | SyncLocalAssets
  | SaveHost

text \<open>
  \<open>acquireMachinesLock\<close>: the spec it builds, and the result of \<open>mutex.Acquire\<close> on
  it. The \<open>name\<close> argument is only written to the log.
\<close>

definition machinesLockSpec :: "world \<Rightarrow> string \<Rightarrow> mutex_Spec" where
  "machinesLockSpec w name =
     (PathMutexSpec w (filepath_Join w [MiniPath w, ''machines''])) \<lparr> Timeout := 15 * Minute \<rparr>"

definition acquireMachinesLock :: "world \<Rightarrow> string \<Rightarrow> error option \<times> event list" where
  "acquireMachinesLock w name =
     (let spec = machinesLockSpec w name
      in (mutex_Acquire w spec, [Acquire spec]))"

section \<open>Creating a host\<close>

text \<open>
  \<open>timedCreateHost\<close>: one goroutine sleeps \<open>t\<close> and then sends on \<open>timeout\<close>, another
  calls \<open>api.Create\<close> and then sends on \<open>createFinished\<close>; the \<open>select\<close> takes the
  channel that is ready first. Instants are measured from the entry of the function.
\<close>

definition createTimedOut :: "nat \<Rightarrow> error" where
  "createTimedOut t = Errorf ''create host timed out in %f seconds'' [ArgDuration t]"

definition timedCreateHost :: "world \<Rightarrow> nat \<Rightarrow> error option \<times> event list" where
  "timedCreateHost w t =
     (case api_Create w of
        CreateNeverReturns \<Rightarrow> (Some (createTimedOut t), [ApiCreate])
      | CreateReturns d err \<Rightarrow>
          if d < t \<or> (d = t \<and> select_tie w = PickCreateFinished)
          then (if err \<noteq> None then Wrap err ''create'' else None, [ApiCreate])
          else (Some (createTimedOut t), [ApiCreate]))"

text \<open>\<open>postStartSetup\<close>, shared between \<open>createHost\<close> and \<open>fixHost\<close>.\<close>

definition postStartSetup :: "world \<Rightarrow> Host \<Rightarrow> ClusterConfig \<Rightarrow> error option \<times> event list" where
  "postStartSetup w h mc =
     (if IsMock w (DriverName h) then (None, [])
      else case CommandRunner w of
        Some err \<Rightarrow> (Wrap (Some err) ''command runner'', [])
      | None \<Rightarrow>
         (case RunCmd_mkdir w of
            Some err \<Rightarrow> (Wrapf (Some err) ''sudo mkdir (%s)'' [ArgString (DriverName h)], [Mkdir])
          | None \<Rightarrow>
              (syncLocalAssets w,
               [Mkdir]
               @ (if BareMetal w (Driver mc) then [ShowLocalOsRelease] else [])
               @ (if IsVM w (Driver mc) \<or> IsKIC w (Driver mc) then [LogRemoteOsRelease] else [])
               @ [SyncLocalAssets])))"

text \<open>
  \<open>createHost\<close>. The result is the pair the Go function returns, a host pointer (nil is
  \<open>None\<close>) and an error, with the trace of the calls made.
\<close>

definition createHost ::
  "world \<Rightarrow> ClusterConfig \<Rightarrow> Node \<Rightarrow> (Host option \<times> error option) \<times> event list" where
  "createHost w cfg n =
     (if registry_Driver_Empty w (Driver cfg)
      then ((None, Some (Errorf ''unsupported/missing driver: %s'' [ArgString (Driver cfg)])),
            [EnterCreateHost])
      else case def_Config w of
        Some err \<Rightarrow> ((None, Wrap (Some err) ''config''), [EnterCreateHost])
      | None \<Rightarrow>
         (case json_Marshal w of
            Some err \<Rightarrow> ((None, Wrap (Some err) ''marshal''), [EnterCreateHost])
          | None \<Rightarrow>
             (case api_NewHost w (Driver cfg) of
                Inl err \<Rightarrow>
                  ((None, Wrap (Some err) ''new host''), [EnterCreateHost, NewHost (Driver cfg)])
              | Inr h0 \<Rightarrow>
                 (let h = h0 \<lparr> CertDir := MiniPath w, StorePath := MiniPath w,
                               EngineOptions := Some (engineOptions w cfg) \<rparr>;
                      (cerr, ctrace) = timedCreateHost w (4 * Minute);
                      trace1 = [EnterCreateHost, NewHost (Driver cfg)] @ ctrace
                  in case cerr of
                       Some err \<Rightarrow> ((None, Wrap (Some err) ''creating host''), trace1)
                     | None \<Rightarrow>
                        (let (perr, ptrace) = postStartSetup w h cfg
                         in case perr of
                              Some err \<Rightarrow> ((Some h, Wrap (Some err) ''post-start''), trace1 @ ptrace)
                            | None \<Rightarrow>
                               (case saveHost w of
                                  Some err \<Rightarrow> ((Some h, Some err), trace1 @ ptrace @ [SaveHost])
                                | None \<Rightarrow> ((Some h, None), trace1 @ ptrace @ [SaveHost])))))))"

section \<open>Starting a host\<close>

text \<open>
  \<open>StartHost\<close>. The result is the triple the Go function returns, the host, whether the
  machine existed, and the error, with the trace. The deferred \<open>releaser.Release()\<close>
  runs on every return after the lock was acquired, so \<open>Release\<close> ends those traces.
  \<open>fixHost\<close> is not among the sources: its result is read from the world.
\<close>

definition StartHost ::
  "world \<Rightarrow> ClusterConfig \<Rightarrow> Node \<Rightarrow> (Host option \<times> bool \<times> error option) \<times> event list" where
  "StartHost w cfg n =
     (let machineName = MachineName w cfg n;
          (lerr, ltrace) = acquireMachinesLock w machineName
      in case lerr of
           Some err \<Rightarrow> ((None, False, Wrap (Some err) ''boot lock''), ltrace)
         | None \<Rightarrow>
            (case api_Exists w machineName of
               Inl err \<Rightarrow>
                 ((None, False, Wrapf (Some err) ''exists: %s'' [ArgString machineName]),
                  ltrace @ [Exists machineName, Release])
             | Inr exists \<Rightarrow>
                 if \<not> exists
                 then (let ((h, err), ctrace) = createHost w cfg n
                       in ((h, exists, err), ltrace @ [Exists machineName] @ ctrace @ [Release]))
                 else (let (h, err) = fixHost w
                       in ((h, exists, err),
                           ltrace @ [Exists machineName, EnterFixHost, Release]))))"

text \<open>How often an event occurs in a trace.\<close>

definition calls :: "event \<Rightarrow> event list \<Rightarrow> nat" where
  "calls e trace = count_list trace e"

section \<open>The kic driver: creating the node container\<close>

text \<open>The fields of \<open>kic.Config\<close> and \<open>kic.Driver\<close> that decide what \<open>Create\<close> calls.\<close>

record kic_Config =
  CfgMachineName :: string
  OCIBinary :: string
  ImageDigest :: string
  KubernetesVersion :: string
  ContainerRuntime :: string

record kic_Driver =
  DriverMachineName :: string
  NodeConfig :: kic_Config
  DriverOCIBinary :: string

text \<open>
  The constant \<open>oci.Docker\<close>, and the functions of package \<open>oci\<close> and \<open>download\<close>
  that \<open>Create\<close> calls, and \<open>prepareSSH\<close>, by their results; each call is taken to
  return. \<open>oci.ContainerExists\<close> returns a pair in Go, the
  flag and an error, and \<open>Create\<close> reads both.
\<close>

record kic_world =
  oci_Docker :: string
  oci_ContainerExists :: "string \<Rightarrow> string \<Rightarrow> bool \<times> error option"
  oci_IsCreatedByMinikube :: "string \<Rightarrow> string \<Rightarrow> bool"
  oci_DeleteContainer :: "string \<Rightarrow> string \<Rightarrow> error option"
  oci_PrepareContainerNode :: "error option"
  kic_PreloadExists :: "string \<Rightarrow> string \<Rightarrow> bool"
  oci_ExtractTarballToVolume :: "error option"
  oci_CreateContainerNode :: "error option"
  prepareSSH :: "error option"

datatype kic_event =
    ContainerExistsCall string string
  | IsCreatedByMinikubeCall string string
  | DeleteContainerCall string string
  | PrepareContainerNodeCall string
  | ExtractTarballToVolumeCall string
  | CreateContainerNodeCall string
  | PrepareSSHCall

text \<open>
  The goroutine that extracts the preloaded images, started by \<open>Create\<close> for the docker
  binary only: its calls. Its error is logged and not returned.
\<close>

definition extractPreload :: "kic_world \<Rightarrow> kic_Driver \<Rightarrow> kic_event list" where
  "extractPreload kw d =
     (if OCIBinary (NodeConfig d) = oci_Docker kw
      then (if \<not> kic_PreloadExists kw (KubernetesVersion (NodeConfig d)) (ContainerRuntime (NodeConfig d))
            then []
            else [ExtractTarballToVolumeCall (CfgMachineName (NodeConfig d))])
      else [])"

text \<open>
  \<open>Create\<close> from \<open>oci.PrepareContainerNode\<close> on, reached when no container of the name
  is in the way. The extraction goroutine is started before \<open>oci.CreateContainerNode\<close>;
  its calls are put there in the trace.
\<close>

definition createNode :: "kic_world \<Rightarrow> kic_Driver \<Rightarrow> error option \<times> kic_event list" where
  "createNode kw d =
     (let name = CfgMachineName (NodeConfig d)
      in case oci_PrepareContainerNode kw of
           Some err \<Rightarrow> (Wrap (Some err) ''setting up container node'', [PrepareContainerNodeCall name])
         | None \<Rightarrow>
            (let trace = [PrepareContainerNodeCall name] @ extractPreload kw d
                         @ [CreateContainerNodeCall name]
             in case oci_CreateContainerNode kw of
                  Some err \<Rightarrow> (Wrap (Some err) ''create kic node'', trace)
                | None \<Rightarrow>
                   (case prepareSSH kw of
                      Some err \<Rightarrow> (Wrap (Some err) ''prepare kic ssh'', trace @ [PrepareSSHCall])
                    | None \<Rightarrow> (None, trace @ [PrepareSSHCall]))))"

definition conflictingContainerFormat :: string where
  "conflictingContainerFormat =
     ''user has a conflicting container name %q with minikube container. Needs to be deleted by user's consent.''"

text \<open>
  \<open>Driver.Create\<close>: the error it returns (nil is \<open>None\<close>) and the calls it makes. An
  error of \<open>oci.ContainerExists\<close> is logged and kept in \<open>err\<close>; on the conflict branch
  that \<open>err\<close> is what \<open>errors.Wrapf\<close> wraps.
\<close>

definition Create :: "kic_world \<Rightarrow> kic_Driver \<Rightarrow> error option \<times> kic_event list" where
  "Create kw d =
     (let name = CfgMachineName (NodeConfig d);
          (exists, err) = oci_ContainerExists kw (DriverOCIBinary d) name;
          trace0 = [ContainerExistsCall (DriverOCIBinary d) name]
      in if exists
         then (if oci_IsCreatedByMinikube kw (DriverOCIBinary d) name
               then (let (rerr, rtrace) = createNode kw d
                     in (rerr, trace0 @ [IsCreatedByMinikubeCall (DriverOCIBinary d) name,
                                         DeleteContainerCall (DriverOCIBinary d) name] @ rtrace))
               else (Wrapf err conflictingContainerFormat [ArgString name],
                     trace0 @ [IsCreatedByMinikubeCall (DriverOCIBinary d) name]))
         else (let (rerr, rtrace) = createNode kw d
               in (rerr, trace0 @ rtrace)))"

section \<open>Caching images and downloading the base image\<close>

definition Version :: string where
  "Version = ''v0.0.10''"

definition baseImageSHA :: string where
  "baseImageSHA = ''f58e0c4662bac8a9b5dda7984b185bad8502ade5d9fa364bf2755d636ab51438''"

definition BaseImageFallBack1 :: string where
  "BaseImageFallBack1 = ''kicbase/stable:'' @ Version @ ''@sha256:'' @ baseImageSHA"

definition BaseImageFallBack2 :: string where
  "BaseImageFallBack2 = ''docker.pkg.github.com/kubernetes/minikube/kicbase:'' @ Version"

text \<open>
  A function passed to \<open>g.Go\<close>: the call of \<open>machine.CacheImagesForBootstrapper\<close> with
  its three arguments, or the closure of \<open>beginDownloadKicArtifacts\<close>. An
  \<open>errgroup.Group\<close> is the list of the functions given to it.
\<close>

datatype task =
    CacheImagesForBootstrapper string string string
  | DownloadKicBaseImage

type_synonym errgroup = "task list"

text \<open>
  A task of a group returns at some instant with its error or nil, or never returns.
\<close>

datatype task_outcome = Finishes nat "error option" | NeverFinishes

text \<open>
  What package \<open>node\<close> reads from outside: the viper settings, \<open>download.PreloadExists\<close>
  and \<open>download.Preload\<close>, \<open>image.ExistsImageInDaemon\<close>, \<open>image.WriteImageToDaemon\<close>
  (its result may differ from call to call, so it is indexed by the number of calls made
  before), and how each task of a group ends, once the group runs it.
\<close>

record node_world =
  viper_cacheImages :: bool
  viper_Bootstrapper :: string
  download_PreloadExists :: "string \<Rightarrow> string \<Rightarrow> bool"
  download_Preload :: "string \<Rightarrow> string \<Rightarrow> error option"
  image_ExistsImageInDaemon :: "string \<Rightarrow> bool"
  image_WriteImageToDaemon :: "nat \<Rightarrow> string \<Rightarrow> error option"
  run_task :: "task \<Rightarrow> task_outcome"

datatype node_event =
    PreloadExistsCall string string
  | PreloadCall string string
  | ErrorLog string error

text \<open>
  \<open>beginCacheKubernetesImages\<close>: the group after the call and the calls made during
  it. \<open>preloaded\<close> is true exactly when the function leaves through its first
  \<open>return\<close>, after a successful \<open>download.Preload\<close>. The \<open>&&\<close> of the source does not
  call \<open>download.PreloadExists\<close> when the repository is not empty.
\<close>

definition beginCacheKubernetesImages ::
  "node_world \<Rightarrow> errgroup \<Rightarrow> string \<Rightarrow> string \<Rightarrow> string \<Rightarrow> errgroup \<times> node_event list" where
  "beginCacheKubernetesImages nw g imageRepository k8sVersion cRuntime =
     (let (preloaded, trace) =
            (if imageRepository = []
             then (if download_PreloadExists nw k8sVersion cRuntime
                   then (download_Preload nw k8sVersion cRuntime = None,
                         [PreloadExistsCall k8sVersion cRuntime, PreloadCall k8sVersion cRuntime])
                   else (False, [PreloadExistsCall k8sVersion cRuntime]))
             else (False, []))
      in if preloaded then (g, trace)
         else if \<not> viper_cacheImages nw then (g, trace)
         else (g @ [CacheImagesForBootstrapper imageRepository k8sVersion (viper_Bootstrapper nw)],
               trace))"

text \<open>
  The closure that \<open>beginDownloadKicArtifacts\<close> gives to the group: the error it
  returns, the configuration it leaves (it assigns \<open>cc.KicBaseImage\<close>), and the
  references it passed to \<open>image.WriteImageToDaemon\<close>, in order.
\<close>

definition downloadKicBaseImage ::
  "node_world \<Rightarrow> ClusterConfig \<Rightarrow> error option \<times> ClusterConfig \<times> string list" where
  "downloadKicBaseImage nw cc =
     (case image_WriteImageToDaemon nw 0 (KicBaseImage cc) of
        None \<Rightarrow> (None, cc, [KicBaseImage cc])
      | Some err \<Rightarrow>
         (let cc1 = cc \<lparr> KicBaseImage := BaseImageFallBack1 \<rparr>
          in case image_WriteImageToDaemon nw 1 BaseImageFallBack1 of
               None \<Rightarrow> (None, cc1, [KicBaseImage cc, BaseImageFallBack1])
             | Some err1 \<Rightarrow>
                (let cc2 = cc1 \<lparr> KicBaseImage := BaseImageFallBack2 \<rparr>
                 in (image_WriteImageToDaemon nw 2 BaseImageFallBack2, cc2,
                     [KicBaseImage cc, BaseImageFallBack1, BaseImageFallBack2]))))"

definition beginDownloadKicArtifacts :: "node_world \<Rightarrow> errgroup \<Rightarrow> ClusterConfig \<Rightarrow> errgroup" where
  "beginDownloadKicArtifacts nw g cc =
     (if Driver cc = ''docker''
      then (if \<not> image_ExistsImageInDaemon nw (KicBaseImage cc)
            then g @ [DownloadKicBaseImage]
            else g)
      else g)"





section \<open>Example inputs\<close>

definition demo_host :: Host where
  "demo_host = \<lparr> HostName = ''minikube'', DriverName = ''docker'', CertDir = [], StorePath = [],
                   EngineOptions = None \<rparr>"

text \<open>
  \<open>filepath.Join\<close> on elements that are clean and not empty, as those of the examples
  are: the elements with the separator between them.
\<close>

definition join_clean :: "string list \<Rightarrow> string" where
  "join_clean elems = (case elems of [] \<Rightarrow> [] | e # es \<Rightarrow> foldl (\<lambda>p q. p @ ''/'' @ q) e es)"

definition demo_world :: world where
  "demo_world =
     \<lparr> MachineName = (\<lambda>cfg n. if ControlPlane n then Name cfg else Name cfg @ ''-'' @ NodeName n),
       MiniPath = ''/home/user/.minikube'',
       PathMutexSpec = (\<lambda>path. \<lparr> SpecName = path, Timeout = 60 * Second \<rparr>),
       filepath_Join = join_clean,
       SetDockerEnv = [''NO_PROXY=localhost''],
       DefaultServiceCIDR = ''10.96.0.0/12'',
       DefaultEngineInstallURL = ''https://get.docker.com'',
       mutex_Acquire = (\<lambda>spec. None),
       api_Exists = (\<lambda>name. Inr False),
       registry_Driver_Empty = (\<lambda>d. d \<noteq> ''docker''),
       def_Config = None,
       json_Marshal = None,
       api_NewHost = (\<lambda>d. Inr demo_host),
       api_Create = CreateReturns (20 * Second) None,
       select_tie = PickTimeout,
       IsMock = (\<lambda>d. d = ''mock''),
       BareMetal = (\<lambda>d. d = ''none''),
       IsVM = (\<lambda>d. d = ''kvm2''),
       IsKIC = (\<lambda>d. d = ''docker'' \<or> d = ''podman''),
       CommandRunner = None,
       RunCmd_mkdir = None,
       syncLocalAssets = None,
       saveHost = None,
       fixHost = (Some demo_host, None) \<rparr>"

definition demo_cfg :: ClusterConfig where
  "demo_cfg = \<lparr> Name = ''minikube'', Driver = ''docker'', KicBaseImage = ''kicbase:v0.0.10'',
                DockerEnv = [''A=1'', ''B=2'', ''A=1''], InsecureRegistry = [''10.0.0.0/24''],
                RegistryMirror = [], DockerOpt = [] \<rparr>"

definition demo_node :: Node where
  "demo_node = \<lparr> NodeName = ''m02'', ControlPlane = False \<rparr>"

definition demo_driver :: kic_Driver where
  "demo_driver =
     \<lparr> DriverMachineName = ''minikube'',
       NodeConfig = \<lparr> CfgMachineName = ''minikube'', OCIBinary = ''docker'',
                      ImageDigest = ''kicbase:v0.0.10'', KubernetesVersion = ''v1.18.0'',
                      ContainerRuntime = ''docker'' \<rparr>,
       DriverOCIBinary = ''docker'' \<rparr>"

text \<open>
  A docker daemon that already has a container named \<open>minikube\<close> which minikube did not
  create: \<open>oci.ContainerExists\<close> finds it and reports no error.
\<close>

definition conflict_world :: kic_world where
  "conflict_world =
     \<lparr> oci_Docker = ''docker'',
       oci_ContainerExists = (\<lambda>ociBin name. (name = ''minikube'', None)),
       oci_IsCreatedByMinikube = (\<lambda>ociBin name. False),
       oci_DeleteContainer = (\<lambda>ociBin name. None),
       oci_PrepareContainerNode = None,
       kic_PreloadExists = (\<lambda>v r. False),
       oci_ExtractTarballToVolume = None,
       oci_CreateContainerNode = None,
       prepareSSH = None \<rparr>"

definition demo_node_world :: node_world where
  "demo_node_world =
     \<lparr> viper_cacheImages = True,
       viper_Bootstrapper = ''kubeadm'',
       download_PreloadExists = (\<lambda>v r. v = ''v1.18.0'' \<and> r = ''docker''),
       download_Preload = (\<lambda>v r. None),
       image_ExistsImageInDaemon = (\<lambda>img. False),
       image_WriteImageToDaemon = (\<lambda>i img. if i = 2 then None else Some (ErrNew ''pull failed'')),
       run_task = (\<lambda>t. case t of
                      CacheImagesForBootstrapper repo v b \<Rightarrow>
                        if repo = [] then Finishes (9 * Second) None
                        else Finishes (3 * Second) (Some (ErrNew ''caching failed''))
                    | DownloadKicBaseImage \<Rightarrow> Finishes (30 * Second) None) \<rparr>"

section \<open>Traces of createHost and StartHost\<close>

lemma createTimedOut_not_wrap: "createTimedOut t \<noteq> ErrWrap e format args"
  by (simp add: createTimedOut_def)

lemma timedCreateHost_trace: "snd (timedCreateHost w t) = [ApiCreate]"
  by (simp add: timedCreateHost_def split: create_behaviour.split)

lemma postStartSetup_no_enter:
  "calls EnterCreateHost (snd (postStartSetup w h mc)) = 0
   \<and> calls EnterFixHost (snd (postStartSetup w h mc)) = 0"
  by (simp add: postStartSetup_def calls_def split: option.split)

lemma createHost_enter_once:
  "calls EnterCreateHost (snd (createHost w cfg n)) = 1
   \<and> calls EnterFixHost (snd (createHost w cfg n)) = 0"
  using postStartSetup_no_enter
  by (simp add: createHost_def Let_def case_prod_beta calls_def timedCreateHost_trace
      split: option.split sum.split)

text \<open>\<open>StartHost\<close> when the lock was acquired and the machine does not exist.\<close>

lemma StartHost_absent:
  assumes "mutex_Acquire w (machinesLockSpec w (MachineName w cfg n)) = None"
      and "api_Exists w (MachineName w cfg n) = Inr False"
  shows "StartHost w cfg n =
     ((fst (fst (createHost w cfg n)), False, snd (fst (createHost w cfg n))),
      [Acquire (machinesLockSpec w (MachineName w cfg n)), Exists (MachineName w cfg n)]
      @ snd (createHost w cfg n) @ [Release])"
  using assms by (simp add: StartHost_def acquireMachinesLock_def Let_def case_prod_beta)

text \<open>\<open>StartHost\<close> when the lock was acquired and the machine exists.\<close>

lemma StartHost_present:
  assumes "mutex_Acquire w (machinesLockSpec w (MachineName w cfg n)) = None"
      and "api_Exists w (MachineName w cfg n) = Inr True"
  shows "StartHost w cfg n =
     ((fst (fixHost w), True, snd (fixHost w)),
      [Acquire (machinesLockSpec w (MachineName w cfg n)), Exists (MachineName w cfg n),
       EnterFixHost, Release])"
  using assms by (simp add: StartHost_def acquireMachinesLock_def Let_def case_prod_beta)

text \<open>\<open>createHost\<close> once \<open>api.NewHost\<close> has returned the host object.\<close>

lemma createHost_after_NewHost:
  assumes "\<not> registry_Driver_Empty w (Driver cfg)"
      and "def_Config w = None"
      and "json_Marshal w = None"
      and "api_NewHost w (Driver cfg) = Inr h0"
  shows "fst (createHost w cfg n) =
     (let h = h0 \<lparr> CertDir := MiniPath w, StorePath := MiniPath w,
                   EngineOptions := Some (engineOptions w cfg) \<rparr>
      in case fst (timedCreateHost w (4 * Minute)) of
           Some err \<Rightarrow> (None, Some (ErrWrap err ''creating host'' []))
         | None \<Rightarrow>
            (case fst (postStartSetup w h cfg) of
               Some err \<Rightarrow> (Some h, Some (ErrWrap err ''post-start'' []))
             | None \<Rightarrow> (Some h, saveHost w)))"
  using assms
  by (simp add: createHost_def Let_def case_prod_beta Wrap_def split: option.split)

section \<open>StartHost: create or fix\<close>

text \<open>
  Claim C1. For every cluster configuration and node, once the machines lock is acquired
  and \<open>api.Exists\<close> succeeds: if the machine does not exist, \<open>StartHost\<close> calls
  \<open>createHost\<close> exactly once and \<open>fixHost\<close> not at all, and returns existed = false;
  if the machine exists, it does not call \<open>createHost\<close> and returns existed = true.
\<close>

theorem C1_StartHost_create_or_fix:
  assumes "mutex_Acquire w (machinesLockSpec w (MachineName w cfg n)) = None"
      and "api_Exists w (MachineName w cfg n) = Inr exists"
  shows "(\<not> exists \<longrightarrow>
            calls EnterCreateHost (snd (StartHost w cfg n)) = 1
          \<and> calls EnterFixHost (snd (StartHost w cfg n)) = 0
          \<and> fst (snd (fst (StartHost w cfg n))) = False)
       \<and> (exists \<longrightarrow>
            calls EnterCreateHost (snd (StartHost w cfg n)) = 0
          \<and> fst (snd (fst (StartHost w cfg n))) = True)"
proof (cases exists)
  case True
  then show ?thesis
    using StartHost_present [of w cfg n] assms by (simp add: calls_def)
next
  case False
  then show ?thesis
    using StartHost_absent [of w cfg n] assms createHost_enter_once [of w cfg n]
    by (simp add: calls_def)
qed

theorem C1_StartHost_create_or_fix_witness:
  "mutex_Acquire demo_world (machinesLockSpec demo_world (MachineName demo_world demo_cfg demo_node)) = None
   \<and> api_Exists demo_world (MachineName demo_world demo_cfg demo_node) = Inr False
   \<and> calls EnterCreateHost (snd (StartHost demo_world demo_cfg demo_node)) = 1
   \<and> calls EnterFixHost (snd (StartHost demo_world demo_cfg demo_node)) = 0
   \<and> fst (snd (fst (StartHost demo_world demo_cfg demo_node))) = False
   \<and> calls EnterCreateHost
        (snd (StartHost (demo_world \<lparr> api_Exists := (\<lambda>name. Inr True) \<rparr>) demo_cfg demo_node)) = 0
   \<and> fst (snd (fst (StartHost (demo_world \<lparr> api_Exists := (\<lambda>name. Inr True) \<rparr>) demo_cfg demo_node)))
       = True"
proof -
  have a: "mutex_Acquire demo_world
             (machinesLockSpec demo_world (MachineName demo_world demo_cfg demo_node)) = None"
    by (simp add: demo_world_def)
  have b: "api_Exists demo_world (MachineName demo_world demo_cfg demo_node) = Inr False"
    by (simp add: demo_world_def)
  let ?w = "demo_world \<lparr> api_Exists := (\<lambda>name. Inr True) \<rparr>"
  have c: "mutex_Acquire ?w (machinesLockSpec ?w (MachineName ?w demo_cfg demo_node)) = None"
    by (simp add: demo_world_def)
  have d: "api_Exists ?w (MachineName ?w demo_cfg demo_node) = Inr True"
    by simp
  show ?thesis
    using a b C1_StartHost_create_or_fix [OF a b] C1_StartHost_create_or_fix [OF c d] by simp
qed

section \<open>The key of the machines lock\<close>

text \<open>
  Claim C3, as the code has it. The lock that \<open>StartHost\<close> acquires before provisioning
  is not keyed by the machine name: \<open>acquireMachinesLock\<close> builds its spec from the path
  that \<open>filepath.Join\<close> gives for the minikube home and \<open>machines\<close>, sets the timeout
  to 15 minutes, and uses the name for the log only. The spec is therefore the same for
  every machine name, and every \<open>StartHost\<close> call starts by acquiring the lock of that
  spec, whatever the configuration and the node. Two runs that have the same minikube
  home, and the same \<open>filepath.Join\<close> and \<open>lock.PathMutexSpec\<close>, acquire the same
  lock, whatever else differs between them.
\<close>

theorem C3_machines_lock_same_for_all_names:
  "machinesLockSpec w name1 = machinesLockSpec w name2
   \<and> machinesLockSpec w name1
       = (PathMutexSpec w (filepath_Join w [MiniPath w, ''machines''])) \<lparr> Timeout := 15 * Minute \<rparr>
   \<and> Timeout (machinesLockSpec w name1) = 15 * Minute
   \<and> hd (snd (StartHost w cfg n)) = Acquire (machinesLockSpec w name1)
   \<and> (MiniPath w' = MiniPath w \<and> PathMutexSpec w' = PathMutexSpec w
        \<and> filepath_Join w' = filepath_Join w \<longrightarrow>
        machinesLockSpec w' name2 = machinesLockSpec w name1
        \<and> hd (snd (StartHost w' cfg' n')) = hd (snd (StartHost w cfg n)))"
proof -
  have first: "hd (snd (StartHost v c m)) = Acquire (machinesLockSpec v nm)" for v c m nm
    by (simp add: machinesLockSpec_def StartHost_def acquireMachinesLock_def
        Let_def case_prod_beta split: option.split sum.split)
  have same: "machinesLockSpec w' name2 = machinesLockSpec w name1"
    if "MiniPath w' = MiniPath w" "PathMutexSpec w' = PathMutexSpec w"
       "filepath_Join w' = filepath_Join w"
    using that by (simp add: machinesLockSpec_def)
  have "hd (snd (StartHost w' cfg' n')) = hd (snd (StartHost w cfg n))"
    if "MiniPath w' = MiniPath w" "PathMutexSpec w' = PathMutexSpec w"
       "filepath_Join w' = filepath_Join w"
    using same [OF that] first [of w' cfg' n' name2] first [of w cfg n name1] by simp
  then show ?thesis
    using first [of w cfg n name1] same by (simp add: machinesLockSpec_def)
qed

theorem C3_machines_lock_same_for_all_names_witness:
  "MiniPath (demo_world \<lparr> api_Exists := (\<lambda>name. Inr True) \<rparr>) = MiniPath demo_world
   \<and> PathMutexSpec (demo_world \<lparr> api_Exists := (\<lambda>name. Inr True) \<rparr>) = PathMutexSpec demo_world
   \<and> filepath_Join (demo_world \<lparr> api_Exists := (\<lambda>name. Inr True) \<rparr>) = filepath_Join demo_world
   \<and> machinesLockSpec (demo_world \<lparr> api_Exists := (\<lambda>name. Inr True) \<rparr>) ''other''
       = machinesLockSpec demo_world ''minikube-m02''
   \<and> hd (snd (StartHost (demo_world \<lparr> api_Exists := (\<lambda>name. Inr True) \<rparr>)
                 (demo_cfg \<lparr> Name := ''other'' \<rparr>) (demo_node \<lparr> ControlPlane := True \<rparr>)))
       = hd (snd (StartHost demo_world demo_cfg demo_node))
   \<and> machinesLockSpec demo_world ''minikube-m02''
       = \<lparr> SpecName = ''/home/user/.minikube/machines'', Timeout = 15 * Minute \<rparr>"
proof -
  have k: "machinesLockSpec demo_world ''minikube-m02''
       = \<lparr> SpecName = ''/home/user/.minikube/machines'', Timeout = 15 * Minute \<rparr>"
    by (simp add: machinesLockSpec_def demo_world_def join_clean_def)
  show ?thesis
    using k C3_machines_lock_same_for_all_names
          [where w = demo_world and w' = "demo_world \<lparr> api_Exists := (\<lambda>name. Inr True) \<rparr>"
             and ?name1.0 = "''minikube-m02''" and ?name2.0 = "''other''"
             and cfg = demo_cfg and n = demo_node
             and cfg' = "demo_cfg \<lparr> Name := ''other'' \<rparr>"
             and n' = "demo_node \<lparr> ControlPlane := True \<rparr>"]
    by simp
qed

text \<open>
  The claim as stated fails: the control-plane node and the node \<open>m02\<close> of the cluster
  \<open>minikube\<close> have different machine names and the same lock spec.
\<close>

theorem C3_lock_key_by_name_counterexample:
  "MachineName demo_world demo_cfg demo_node = ''minikube-m02''
   \<and> MachineName demo_world demo_cfg (demo_node \<lparr> ControlPlane := True \<rparr>) = ''minikube''
   \<and> machinesLockSpec demo_world ''minikube-m02'' = machinesLockSpec demo_world ''minikube''
   \<and> hd (snd (StartHost demo_world demo_cfg demo_node))
       = hd (snd (StartHost demo_world demo_cfg (demo_node \<lparr> ControlPlane := True \<rparr>)))"
  by (simp add: demo_world_def demo_cfg_def demo_node_def machinesLockSpec_def StartHost_def
      acquireMachinesLock_def Let_def case_prod_beta)

section \<open>The creation timeout\<close>

text \<open>
  Claim C4. \<open>timedCreateHost\<close> races \<open>api.Create\<close> against a timer and the first to
  resolve decides: if \<open>api.Create\<close> never returns, or returns after the timer has fired,
  the result is the timeout error; if it returns before, the result is its own result,
  nil or its error wrapped with \<open>create\<close>. The timeout error is never equal to a wrapped
  creation error. \<open>createHost\<close> calls it with the fixed ceiling of 4 minutes and wraps
  its error with \<open>creating host\<close>; so when \<open>api.Create\<close> never returns, \<open>createHost\<close>
  and \<open>StartHost\<close> return the timeout error and a nil host.
\<close>

theorem C4_timedCreateHost_race:
  "(api_Create w = CreateNeverReturns \<longrightarrow> fst (timedCreateHost w t) = Some (createTimedOut t))
   \<and> (\<forall>d r. api_Create w = CreateReturns d r \<and> t < d \<longrightarrow>
         fst (timedCreateHost w t) = Some (createTimedOut t))
   \<and> (\<forall>d r. api_Create w = CreateReturns d r \<and> d < t \<longrightarrow>
         fst (timedCreateHost w t) = Wrap r ''create'')
   \<and> (\<forall>e. Some (createTimedOut t) \<noteq> Wrap e ''create'')
   \<and> (\<not> registry_Driver_Empty w (Driver cfg) \<and> def_Config w = None \<and> json_Marshal w = None
        \<and> api_NewHost w (Driver cfg) = Inr h0 \<longrightarrow>
        (\<forall>err. fst (timedCreateHost w (4 * Minute)) = Some err \<longrightarrow>
           fst (createHost w cfg n) = (None, Some (ErrWrap err ''creating host'' [])))
        \<and> (api_Create w = CreateNeverReturns \<longrightarrow>
           fst (createHost w cfg n)
             = (None, Some (ErrWrap (createTimedOut (4 * Minute)) ''creating host'' []))
           \<and> (mutex_Acquire w (machinesLockSpec w (MachineName w cfg n)) = None
                \<and> api_Exists w (MachineName w cfg n) = Inr False \<longrightarrow>
              fst (StartHost w cfg n)
                = (None, False, Some (ErrWrap (createTimedOut (4 * Minute)) ''creating host'' [])))))"
proof -
  have never: "fst (timedCreateHost w t') = Some (createTimedOut t')"
    if "api_Create w = CreateNeverReturns" for t'
    using that by (simp add: timedCreateHost_def)
  have late: "api_Create w = CreateReturns d r \<and> t < d \<longrightarrow>
         fst (timedCreateHost w t) = Some (createTimedOut t)" for d r
    by (simp add: timedCreateHost_def)
  have early: "api_Create w = CreateReturns d r \<and> d < t \<longrightarrow>
         fst (timedCreateHost w t) = Wrap r ''create''" for d r
    by (cases r) (simp_all add: timedCreateHost_def Wrap_def)
  have apart: "Some (createTimedOut t) \<noteq> Wrap e ''create''" for e
    by (cases e) (simp_all add: Wrap_def createTimedOut_not_wrap)
  have ch: "fst (createHost w cfg n) = (None, Some (ErrWrap err ''creating host'' []))"
    if "\<not> registry_Driver_Empty w (Driver cfg)" "def_Config w = None" "json_Marshal w = None"
       "api_NewHost w (Driver cfg) = Inr h0" "fst (timedCreateHost w (4 * Minute)) = Some err"
    for err
    using createHost_after_NewHost [OF that(1-4), of n] that(5) by (simp add: Let_def)
  have sh: "fst (StartHost w cfg n)
              = (None, False, Some (ErrWrap (createTimedOut (4 * Minute)) ''creating host'' []))"
    if "\<not> registry_Driver_Empty w (Driver cfg)" "def_Config w = None" "json_Marshal w = None"
       "api_NewHost w (Driver cfg) = Inr h0" "api_Create w = CreateNeverReturns"
       "mutex_Acquire w (machinesLockSpec w (MachineName w cfg n)) = None"
       "api_Exists w (MachineName w cfg n) = Inr False"
    using StartHost_absent [OF that(6,7)] ch [OF that(1-4) never [OF that(5)]] by simp
  show ?thesis using never late early apart ch sh by blast
qed

theorem C4_timedCreateHost_race_witness:
  "api_Create (demo_world \<lparr> api_Create := CreateNeverReturns \<rparr>) = CreateNeverReturns
   \<and> fst (timedCreateHost (demo_world \<lparr> api_Create := CreateNeverReturns \<rparr>) (4 * Minute))
       = Some (createTimedOut (4 * Minute))
   \<and> fst (createHost (demo_world \<lparr> api_Create := CreateNeverReturns \<rparr>) demo_cfg demo_node)
       = (None, Some (ErrWrap (createTimedOut (4 * Minute)) ''creating host'' []))
   \<and> fst (StartHost (demo_world \<lparr> api_Create := CreateNeverReturns \<rparr>) demo_cfg demo_node)
       = (None, False, Some (ErrWrap (createTimedOut (4 * Minute)) ''creating host'' []))
   \<and> 4 * Minute < 5 * Minute
   \<and> fst (timedCreateHost (demo_world \<lparr> api_Create := CreateReturns (5 * Minute) None \<rparr>) (4 * Minute))
       = Some (createTimedOut (4 * Minute))
   \<and> 20 * Second < 4 * Minute
   \<and> fst (timedCreateHost
            (demo_world \<lparr> api_Create := CreateReturns (20 * Second) (Some (ErrNew ''no space left'')) \<rparr>)
            (4 * Minute))
       = Some (ErrWrap (ErrNew ''no space left'') ''create'' [])
   \<and> fst (timedCreateHost demo_world (4 * Minute)) = None"
  using C4_timedCreateHost_race
          [where w = "demo_world \<lparr> api_Create := CreateNeverReturns \<rparr>" and t = "4 * Minute"
             and cfg = demo_cfg and ?h0.0 = demo_host and n = demo_node]
        C4_timedCreateHost_race
          [where w = "demo_world \<lparr> api_Create := CreateReturns (5 * Minute) None \<rparr>"
             and t = "4 * Minute"]
        C4_timedCreateHost_race
          [where w = "demo_world \<lparr> api_Create := CreateReturns (20 * Second) (Some (ErrNew ''no space left'')) \<rparr>"
             and t = "4 * Minute"]
        C4_timedCreateHost_race [where w = demo_world and t = "4 * Minute"]
  by (simp add: demo_world_def demo_cfg_def Second_def Minute_def Wrap_def)

section \<open>A failure of the post-start setup\<close>

text \<open>
  Claim C9. For every run of the create path in which the machine was created
  (\<open>timedCreateHost\<close> returned nil) and \<open>postStartSetup\<close> then fails, \<open>createHost\<close>
  and \<open>StartHost\<close> return the created host, not nil, together with the error of the
  post-start setup wrapped with \<open>post-start\<close>.
\<close>

theorem C9_post_start_failure_keeps_host:
  assumes "mutex_Acquire w (machinesLockSpec w (MachineName w cfg n)) = None"
      and "api_Exists w (MachineName w cfg n) = Inr False"
      and "\<not> registry_Driver_Empty w (Driver cfg)"
      and "def_Config w = None"
      and "json_Marshal w = None"
      and "api_NewHost w (Driver cfg) = Inr h0"
      and "h = h0 \<lparr> CertDir := MiniPath w, StorePath := MiniPath w,
                    EngineOptions := Some (engineOptions w cfg) \<rparr>"
      and "fst (timedCreateHost w (4 * Minute)) = None"
      and "fst (postStartSetup w h cfg) = Some err"
  shows "fst (createHost w cfg n) = (Some h, Some (ErrWrap err ''post-start'' []))
       \<and> fst (StartHost w cfg n) = (Some h, False, Some (ErrWrap err ''post-start'' []))"
proof -
  have c: "fst (createHost w cfg n) = (Some h, Some (ErrWrap err ''post-start'' []))"
    using createHost_after_NewHost [OF assms(3-6), of n] assms(7-9) by (simp add: Let_def)
  then show ?thesis using StartHost_absent [OF assms(1,2)] by simp
qed

theorem C9_post_start_failure_keeps_host_witness:
  "fst (postStartSetup (demo_world \<lparr> syncLocalAssets := Some (ErrNew ''scp failed'') \<rparr>)
         (demo_host \<lparr> CertDir := ''/home/user/.minikube'', StorePath := ''/home/user/.minikube'',
                       EngineOptions := Some (engineOptions demo_world demo_cfg) \<rparr>) demo_cfg)
     = Some (ErrNew ''scp failed'')
   \<and> fst (StartHost (demo_world \<lparr> syncLocalAssets := Some (ErrNew ''scp failed'') \<rparr>) demo_cfg demo_node)
     = (Some (demo_host \<lparr> CertDir := ''/home/user/.minikube'', StorePath := ''/home/user/.minikube'',
                           EngineOptions := Some (engineOptions demo_world demo_cfg) \<rparr>),
        False, Some (ErrWrap (ErrNew ''scp failed'') ''post-start'' []))"
proof -
  let ?w = "demo_world \<lparr> syncLocalAssets := Some (ErrNew ''scp failed'') \<rparr>"
  let ?h = "demo_host \<lparr> CertDir := ''/home/user/.minikube'', StorePath := ''/home/user/.minikube'',
                         EngineOptions := Some (engineOptions demo_world demo_cfg) \<rparr>"
  have a1: "mutex_Acquire ?w (machinesLockSpec ?w (MachineName ?w demo_cfg demo_node)) = None"
    by (simp add: demo_world_def)
  have a2: "api_Exists ?w (MachineName ?w demo_cfg demo_node) = Inr False"
    by (simp add: demo_world_def)
  have a3: "\<not> registry_Driver_Empty ?w (Driver demo_cfg)"
    by (simp add: demo_world_def demo_cfg_def)
  have a4: "def_Config ?w = None" by (simp add: demo_world_def)
  have a5: "json_Marshal ?w = None" by (simp add: demo_world_def)
  have a6: "api_NewHost ?w (Driver demo_cfg) = Inr demo_host" by (simp add: demo_world_def)
  have a7: "?h = demo_host \<lparr> CertDir := MiniPath ?w, StorePath := MiniPath ?w,
                    EngineOptions := Some (engineOptions ?w demo_cfg) \<rparr>"
    by (simp add: demo_world_def engineOptions_def)
  have a8: "fst (timedCreateHost ?w (4 * Minute)) = None"
    by (simp add: timedCreateHost_def demo_world_def Second_def Minute_def)
  have a9: "fst (postStartSetup ?w ?h demo_cfg) = Some (ErrNew ''scp failed'')"
    by (simp add: postStartSetup_def demo_world_def demo_host_def demo_cfg_def)
  show ?thesis
    using C9_post_start_failure_keeps_host [OF a1 a2 a3 a4 a5 a6 a7 a8 a9] a9 by simp
qed

section \<open>A container of the same name that minikube did not create\<close>

text \<open>
  On the conflict branch of \<open>Create\<close> the container is never deleted, and the error
  returned is \<open>errors.Wrapf\<close> of the error that \<open>oci.ContainerExists\<close> returned.
\<close>

lemma Create_conflict:
  assumes "oci_ContainerExists kw (DriverOCIBinary d) (CfgMachineName (NodeConfig d)) = (True, err)"
      and "\<not> oci_IsCreatedByMinikube kw (DriverOCIBinary d) (CfgMachineName (NodeConfig d))"
  shows "fst (Create kw d)
           = Wrapf err conflictingContainerFormat [ArgString (CfgMachineName (NodeConfig d))]"
    and "DeleteContainerCall ociBin name \<notin> set (snd (Create kw d))"
  using assms by (simp_all add: Create_def Let_def)

text \<open>
  Claim C2 says that \<open>Create\<close> returns an error and never deletes the container when a
  container of the machine's name exists that minikube did not create. The container is
  indeed not deleted, but the error is lost: \<open>oci.ContainerExists\<close> has found the
  container and reported no error, the branch wraps that nil error, and
  \<open>errors.Wrapf\<close> of nil is nil. \<open>Create\<close> returns nil after two calls, without
  having created anything.
\<close>

theorem C2_Create_conflict_returns_nil:
  "oci_ContainerExists conflict_world ''docker'' ''minikube'' = (True, None)
   \<and> \<not> oci_IsCreatedByMinikube conflict_world ''docker'' ''minikube''
   \<and> Create conflict_world demo_driver
       = (None, [ContainerExistsCall ''docker'' ''minikube'',
                 IsCreatedByMinikubeCall ''docker'' ''minikube''])"
  by (simp add: Create_def conflict_world_def demo_driver_def Let_def)

section \<open>Deduplication of the environment list\<close>

lemma remdups_drop_later_dup:
  "x \<in> set zs \<Longrightarrow> remdups (ys @ x # zs) = remdups (ys @ zs)"
  by (induction ys) auto

lemma dedup_loop_first_occurrences:
  "distinct acc \<Longrightarrow> (\<forall>k. seen_get seen k \<longleftrightarrow> k \<in> set acc) \<Longrightarrow>
   dedup_loop es seen acc = rev (remdups (rev (acc @ es)))"
proof (induction es arbitrary: seen acc)
  case Nil
  then show ?case by (simp add: distinct_remdups_id)
next
  case (Cons e es)
  show ?case
  proof (cases "e \<in> set acc")
    case True
    then have "seen_get seen e" using Cons.prems(2) by simp
    then have "dedup_loop (e # es) seen acc = dedup_loop es seen acc" by simp
    also have "\<dots> = rev (remdups (rev (acc @ es)))"
      using Cons.IH [OF Cons.prems] .
    also have "\<dots> = rev (remdups (rev (acc @ e # es)))"
      using True remdups_drop_later_dup [of e "rev acc" "rev es"] by simp
    finally show ?thesis .
  next
    case False
    then have ns: "\<not> seen_get seen e" using Cons.prems(2) by simp
    have d: "distinct (acc @ [e])" using False Cons.prems(1) by simp
    have s: "\<forall>k. seen_get (seen(e \<mapsto> True)) k \<longleftrightarrow> k \<in> set (acc @ [e])"
      using Cons.prems(2) by (auto simp: seen_get_def)
    have "dedup_loop (e # es) seen acc = dedup_loop es (seen(e \<mapsto> True)) (acc @ [e])"
      using ns by simp
    also have "\<dots> = rev (remdups (rev ((acc @ [e]) @ es)))"
      using Cons.IH [OF d s] .
    finally show ?thesis by simp
  qed
qed

lemma dedup_first_occurrences: "dedup xs = rev (remdups (rev xs))"
  using dedup_loop_first_occurrences [of "[]" Map.empty xs]
  by (simp add: dedup_def seen_get_def)

lemma dedup_distinct: "distinct (dedup xs)"
  by (simp add: dedup_first_occurrences)

lemma dedup_set: "set (dedup xs) = set xs"
  by (simp add: dedup_first_occurrences)

lemma dedup_of_distinct: "distinct xs \<Longrightarrow> dedup xs = xs"
  by (simp add: dedup_first_occurrences distinct_remdups_id)

lemma dedup_idem: "dedup (dedup xs) = dedup xs"
  by (rule dedup_of_distinct [OF dedup_distinct])

lemma dedup_length: "length (dedup xs) \<le> length xs"
proof -
  have "length (remdups (rev xs)) \<le> length (rev xs)" by (rule length_remdups_leq)
  then show ?thesis by (simp add: dedup_first_occurrences)
qed

lemma dedup_snoc:
  "dedup (xs @ [x]) = (if x \<in> set xs then dedup xs else dedup xs @ [x])"
  by (simp add: dedup_first_occurrences)

text \<open>
  Claim C5. The deduplication that \<open>engineOptions\<close> applies to the environment list
  removes duplicates and keeps the entries in first-seen order: the result has no
  duplicates, has the same entries as the input, is the input with every later repetition
  dropped (an entry is appended exactly when it has not been seen before), and it is what
  \<open>engineOptions\<close> stores in \<open>Env\<close>. It is idempotent and never longer than its input.
\<close>

theorem C5_dedup_first_seen_idempotent:
  "Env (engineOptions w cfg) = dedup (SetDockerEnv w @ DockerEnv cfg)
   \<and> distinct (dedup xs)
   \<and> set (dedup xs) = set xs
   \<and> dedup [] = []
   \<and> dedup (xs @ [x]) = (if x \<in> set xs then dedup xs else dedup xs @ [x])
   \<and> dedup xs = rev (remdups (rev xs))
   \<and> dedup (dedup xs) = dedup xs
   \<and> length (dedup xs) \<le> length xs"
proof -
  have e: "Env (engineOptions w cfg) = dedup (SetDockerEnv w @ DockerEnv cfg)"
    by (simp add: engineOptions_def Let_def)
  have n: "dedup [] = []" by (simp add: dedup_def)
  show ?thesis
    using e n dedup_distinct [of xs] dedup_set [of xs] dedup_snoc [of xs x]
      dedup_first_occurrences [of xs] dedup_idem [of xs] dedup_length [of xs]
    by simp
qed

text \<open>
  Claim C10. For every cluster configuration the insecure-registry list of the engine
  options starts with the default service CIDR, followed by the configuration's own
  insecure-registry entries in their original order.
\<close>

theorem C10_insecure_registry_cidr_first:
  "EngineInsecureRegistry (engineOptions w cfg) = DefaultServiceCIDR w # InsecureRegistry cfg
   \<and> hd (EngineInsecureRegistry (engineOptions w cfg)) = DefaultServiceCIDR w
   \<and> tl (EngineInsecureRegistry (engineOptions w cfg)) = InsecureRegistry cfg"
  by (simp add: engineOptions_def Let_def)

section \<open>Downloading the base image\<close>

text \<open>
  Claim C6. \<open>beginDownloadKicArtifacts\<close> gives the download task to the group exactly
  when the driver is docker and the base image is not in the local daemon. The task tries
  the configured base image, then the first fallback, then the second, and stops at the
  first success: one attempt if the primary succeeds, two if the primary fails and the
  first fallback succeeds, and if both fail exactly three attempts in this order, with the
  result of the third as the result of the task.
\<close>

theorem C6_base_image_fallback_order:
  "beginDownloadKicArtifacts nw g cc =
     (if Driver cc = ''docker'' \<and> \<not> image_ExistsImageInDaemon nw (KicBaseImage cc)
      then g @ [DownloadKicBaseImage] else g)
   \<and> (image_WriteImageToDaemon nw 0 (KicBaseImage cc) = None \<longrightarrow>
        downloadKicBaseImage nw cc = (None, cc, [KicBaseImage cc]))
   \<and> (image_WriteImageToDaemon nw 0 (KicBaseImage cc) \<noteq> None
        \<and> image_WriteImageToDaemon nw 1 BaseImageFallBack1 = None \<longrightarrow>
        downloadKicBaseImage nw cc
          = (None, cc \<lparr> KicBaseImage := BaseImageFallBack1 \<rparr>, [KicBaseImage cc, BaseImageFallBack1]))
   \<and> (image_WriteImageToDaemon nw 0 (KicBaseImage cc) \<noteq> None
        \<and> image_WriteImageToDaemon nw 1 BaseImageFallBack1 \<noteq> None \<longrightarrow>
        snd (snd (downloadKicBaseImage nw cc)) = [KicBaseImage cc, BaseImageFallBack1, BaseImageFallBack2]
        \<and> length (snd (snd (downloadKicBaseImage nw cc))) = 3
        \<and> fst (downloadKicBaseImage nw cc) = image_WriteImageToDaemon nw 2 BaseImageFallBack2
        \<and> (fst (downloadKicBaseImage nw cc) = None
             \<longleftrightarrow> image_WriteImageToDaemon nw 2 BaseImageFallBack2 = None))"
proof -
  have b: "beginDownloadKicArtifacts nw g cc =
     (if Driver cc = ''docker'' \<and> \<not> image_ExistsImageInDaemon nw (KicBaseImage cc)
      then g @ [DownloadKicBaseImage] else g)"
    by (simp add: beginDownloadKicArtifacts_def)
  have d: "downloadKicBaseImage nw cc =
     (case image_WriteImageToDaemon nw 0 (KicBaseImage cc) of
        None \<Rightarrow> (None, cc, [KicBaseImage cc])
      | Some err \<Rightarrow>
         (case image_WriteImageToDaemon nw 1 BaseImageFallBack1 of
            None \<Rightarrow> (None, cc \<lparr> KicBaseImage := BaseImageFallBack1 \<rparr>,
                     [KicBaseImage cc, BaseImageFallBack1])
          | Some err1 \<Rightarrow>
              (image_WriteImageToDaemon nw 2 BaseImageFallBack2,
               cc \<lparr> KicBaseImage := BaseImageFallBack2 \<rparr>,
               [KicBaseImage cc, BaseImageFallBack1, BaseImageFallBack2])))"
    by (simp add: downloadKicBaseImage_def Let_def split: option.split)
  show ?thesis
    unfolding d using b by (auto split: option.split)
qed

theorem C6_base_image_fallback_order_witness:
  "image_WriteImageToDaemon demo_node_world 0 (KicBaseImage demo_cfg) \<noteq> None
   \<and> image_WriteImageToDaemon demo_node_world 1 BaseImageFallBack1 \<noteq> None
   \<and> snd (snd (downloadKicBaseImage demo_node_world demo_cfg))
       = [''kicbase:v0.0.10'', BaseImageFallBack1, BaseImageFallBack2]
   \<and> fst (downloadKicBaseImage demo_node_world demo_cfg) = None
   \<and> beginDownloadKicArtifacts demo_node_world [] demo_cfg = [DownloadKicBaseImage]
   \<and> downloadKicBaseImage (demo_node_world \<lparr> image_WriteImageToDaemon := (\<lambda>i img. None) \<rparr>) demo_cfg
       = (None, demo_cfg, [''kicbase:v0.0.10''])
   \<and> downloadKicBaseImage
        (demo_node_world \<lparr> image_WriteImageToDaemon :=
           (\<lambda>i img. if i = 0 then Some (ErrNew ''pull failed'') else None) \<rparr>) demo_cfg
       = (None, demo_cfg \<lparr> KicBaseImage := BaseImageFallBack1 \<rparr>, [''kicbase:v0.0.10'', BaseImageFallBack1])"
  using C6_base_image_fallback_order [where nw = demo_node_world and cc = demo_cfg and g = "[]"]
        C6_base_image_fallback_order
          [where nw = "demo_node_world \<lparr> image_WriteImageToDaemon := (\<lambda>i img. None) \<rparr>"
             and cc = demo_cfg and g = "[]"]
        C6_base_image_fallback_order
          [where nw = "demo_node_world \<lparr> image_WriteImageToDaemon :=
                          (\<lambda>i img. if i = 0 then Some (ErrNew ''pull failed'') else None) \<rparr>"
             and cc = demo_cfg and g = "[]"]
  by (simp add: demo_node_world_def demo_cfg_def)

section \<open>Caching the Kubernetes images\<close>

text \<open>
  Claim C7. When the image repository is empty and a preload exists for the Kubernetes
  version and the container runtime, \<open>beginCacheKubernetesImages\<close> calls
  \<open>download.Preload\<close> within the call, and if that succeeds it leaves the group as it
  was. In every other case (repository set, no preload, or a failed preload) it adds the
  per-image caching task to the group if image caching is enabled and leaves the group as
  it was if not; and without an empty repository and an existing preload it does not call
  \<open>download.Preload\<close>.
\<close>

theorem C7_beginCacheKubernetesImages_preload_or_enqueue:
  "(imageRepository = [] \<and> download_PreloadExists nw k8sVersion cRuntime \<longrightarrow>
      PreloadCall k8sVersion cRuntime
        \<in> set (snd (beginCacheKubernetesImages nw g imageRepository k8sVersion cRuntime)))
   \<and> (imageRepository = [] \<and> download_PreloadExists nw k8sVersion cRuntime
        \<and> download_Preload nw k8sVersion cRuntime = None \<longrightarrow>
      fst (beginCacheKubernetesImages nw g imageRepository k8sVersion cRuntime) = g)
   \<and> (\<not> (imageRepository = [] \<and> download_PreloadExists nw k8sVersion cRuntime
          \<and> download_Preload nw k8sVersion cRuntime = None) \<longrightarrow>
      fst (beginCacheKubernetesImages nw g imageRepository k8sVersion cRuntime)
        = (if viper_cacheImages nw
           then g @ [CacheImagesForBootstrapper imageRepository k8sVersion (viper_Bootstrapper nw)]
           else g))
   \<and> (\<not> (imageRepository = [] \<and> download_PreloadExists nw k8sVersion cRuntime) \<longrightarrow>
      PreloadCall k8sVersion cRuntime
        \<notin> set (snd (beginCacheKubernetesImages nw g imageRepository k8sVersion cRuntime)))"
  by (simp add: beginCacheKubernetesImages_def Let_def)

theorem C7_beginCacheKubernetesImages_preload_or_enqueue_witness:
  "download_PreloadExists demo_node_world ''v1.18.0'' ''docker''
   \<and> download_Preload demo_node_world ''v1.18.0'' ''docker'' = None
   \<and> PreloadCall ''v1.18.0'' ''docker''
       \<in> set (snd (beginCacheKubernetesImages demo_node_world [] [] ''v1.18.0'' ''docker''))
   \<and> fst (beginCacheKubernetesImages demo_node_world [] [] ''v1.18.0'' ''docker'') = []
   \<and> fst (beginCacheKubernetesImages demo_node_world [] ''registry.example'' ''v1.18.0'' ''docker'')
       = [CacheImagesForBootstrapper ''registry.example'' ''v1.18.0'' ''kubeadm'']
   \<and> PreloadCall ''v1.18.0'' ''docker''
       \<notin> set (snd (beginCacheKubernetesImages demo_node_world [] ''registry.example'' ''v1.18.0'' ''docker''))
   \<and> fst (beginCacheKubernetesImages demo_node_world [] [] ''v1.17.0'' ''docker'')
       = [CacheImagesForBootstrapper [] ''v1.17.0'' ''kubeadm'']
   \<and> fst (beginCacheKubernetesImages (demo_node_world \<lparr> viper_cacheImages := False \<rparr>) []
            ''registry.example'' ''v1.18.0'' ''docker'') = []"
  using C7_beginCacheKubernetesImages_preload_or_enqueue
          [where nw = demo_node_world and g = "[]" and imageRepository = "[]"
             and k8sVersion = "''v1.18.0''" and cRuntime = "''docker''"]
        C7_beginCacheKubernetesImages_preload_or_enqueue
          [where nw = demo_node_world and g = "[]" and imageRepository = "''registry.example''"
             and k8sVersion = "''v1.18.0''" and cRuntime = "''docker''"]
        C7_beginCacheKubernetesImages_preload_or_enqueue
          [where nw = demo_node_world and g = "[]" and imageRepository = "[]"
             and k8sVersion = "''v1.17.0''" and cRuntime = "''docker''"]
        C7_beginCacheKubernetesImages_preload_or_enqueue
          [where nw = "demo_node_world \<lparr> viper_cacheImages := False \<rparr>" and g = "[]"
             and imageRepository = "''registry.example''"
             and k8sVersion = "''v1.18.0''" and cRuntime = "''docker''"]
  by (simp add: demo_node_world_def)

section \<open>Waiting for the cached images\<close>








end
